theory Spec2Isabelle
  imports Complex_Main
begin

section \<open>Data model of App.js\<close>

text \<open>
  A JavaScript \<open>Date\<close> is represented by its time value in milliseconds. The readings
  sent by the server carry the timestamp as a number of epoch milliseconds; the handlers
  wrap it with \<open>new Date(...)\<close>.
\<close>

datatype date = Date int

fun getTime :: "date \<Rightarrow> int" where
  "getTime (Date t) = t"

text \<open>
  One record type serves both the JSON item of the server (\<open>timestamp\<close> a number) and
  the chart point built from it (\<open>timestamp\<close> a \<open>Date\<close>): the fields are those of the
  object literals at lines 33-37 and 62-66.
\<close>

record 't point =
  timestamp :: 't
  temperature :: real
  fanSpeed :: int

type_synonym reading = "int point"
type_synonym sample = "date point"

datatype status = Idle | Updating | Success | Error

text \<open>The seven \<open>useState\<close> cells of the component, lines 12-18.\<close>

record app =
  data :: "sample list"
  currentTemp :: real
  currentFanSpeed :: int
  threshold :: real
  tempThreshold :: real
  lastUpdate :: "date option"
  status :: status

definition App_init :: app where
  "App_init = \<lparr>data = [], currentTemp = 0, currentFanSpeed = 0, threshold = 30,
     tempThreshold = 30, lastUpdate = None, status = Idle\<rparr>"

text \<open>
  What an awaited \<open>fetch\<close> gives back: a response with \<open>response.ok\<close> and its parsed
  JSON body, a response that is not ok, or an exception (the \<open>catch\<close> branch: the
  request did not get through, or the body did not parse). In all three functions below
  every state setter comes after \<open>await response.json()\<close>, so an exception finds the
  state as it was when the function was called.
\<close>

datatype 'a fetch_result = Resolved_ok 'a | Resolved_not_ok | Rejected

section \<open>Push handlers, lines 26-47\<close>

definition newDataPoint :: "reading \<Rightarrow> sample" where
  "newDataPoint newData =
     \<lparr>timestamp = Date (timestamp newData),
      temperature = temperature newData,
      fanSpeed = fanSpeed newData\<rparr>"

text \<open>\<open>[newDataPoint, ...prevData].slice(0, 50)\<close>\<close>

definition updatedData :: "reading \<Rightarrow> sample list \<Rightarrow> sample list" where
  "updatedData newData prevData = take 50 (newDataPoint newData # prevData)"

definition on_data_update :: "reading \<Rightarrow> app \<Rightarrow> app" where
  "on_data_update newData s =
     s\<lparr>currentTemp := temperature newData,
       currentFanSpeed := fanSpeed newData,
       lastUpdate := Some (Date (timestamp newData)),
       data := updatedData newData (data s)\<rparr>"

definition on_config_update :: "real \<Rightarrow> app \<Rightarrow> app" where
  "on_config_update newConfig_threshold s =
     s\<lparr>threshold := newConfig_threshold, tempThreshold := newConfig_threshold\<rparr>"

text \<open>The handler run once for each event of a stream of \<open>data_update\<close> events, in arrival order.\<close>

fun on_data_updates :: "reading list \<Rightarrow> app \<Rightarrow> app" where
  "on_data_updates [] s = s"
| "on_data_updates (newData # rest) s = on_data_updates rest (on_data_update newData s)"

section \<open>fetchData and fetchConfig, lines 55-93\<close>

definition chartData :: "reading list \<Rightarrow> sample list" where
  "chartData jsonData =
     rev (map (\<lambda>item. \<lparr>timestamp = Date (timestamp item),
                        temperature = temperature item,
                        fanSpeed = fanSpeed item\<rparr>) jsonData)"

definition fetchData :: "reading list fetch_result \<Rightarrow> app \<Rightarrow> app" where
  "fetchData response s =
     (case response of
        Resolved_ok jsonData \<Rightarrow>
          (let cd = chartData jsonData;
               s1 = s\<lparr>data := cd\<rparr>
           in if length cd > 0
              then s1\<lparr>currentTemp := temperature (cd ! (length cd - 1)),
                      currentFanSpeed := fanSpeed (cd ! (length cd - 1)),
                      lastUpdate := Some (timestamp (cd ! (length cd - 1)))\<rparr>
              else s1)
      | Resolved_not_ok \<Rightarrow> s
      | Rejected \<Rightarrow> s)"

definition fetchConfig :: "real fetch_result \<Rightarrow> app \<Rightarrow> app" where
  "fetchConfig response s =
     (case response of
        Resolved_ok config_threshold \<Rightarrow>
          s\<lparr>threshold := config_threshold, tempThreshold := config_threshold\<rparr>
      | Resolved_not_ok \<Rightarrow> s
      | Rejected \<Rightarrow> s)"

section \<open>The slider, lines 221-228\<close>

text \<open>
  \<open>onChange={(e) => setTempThreshold(Number(e.target.value))}\<close>: the handler stores
  the number it reads from the element; it has no test of its own on the value.
\<close>

definition onChange :: "real \<Rightarrow> app \<Rightarrow> app" where
  "onChange value s = s\<lparr>tempThreshold := value\<rparr>"

text \<open>
  The handler is attached to \<open><input type="range" min="20" max="40">\<close> and to nothing
  else, and \<open>e.target.value\<close> is the value the element holds. A range input never holds
  a value outside its bounds or off its steps: a number offered to it is moved to the
  minimum when it is below, to the maximum when it is above, and then to the nearest step
  (the upper one when two are equally near). No \<open>step\<close> attribute is given, so the
  steps are the whole numbers from 20 to 40.
\<close>

definition range_value :: "real \<Rightarrow> real" where
  "range_value v = of_int (round (max 20 (min 40 v)))"

text \<open>A change of the slider: the element takes the value offered, the handler reads it back.\<close>

definition Slider_onChange :: "real \<Rightarrow> app \<Rightarrow> app" where
  "Slider_onChange v s = onChange (range_value v) s"

section \<open>updateThreshold and its timers, lines 95-122\<close>

text \<open>
  The asynchronous part needs the surroundings of the component: a clock in milliseconds,
  the due times of the \<open>setTimeout\<close> callbacks not yet run, the bodies of the POST
  requests sent so far, and how many of them have no response yet.
\<close>

record world =
  app :: app
  now :: nat
  timers :: "nat list"
  posts :: "real list"
  awaiting :: nat

definition World_init :: world where
  "World_init = \<lparr>app = App_init, now = 0, timers = [], posts = [], awaiting = 0\<rparr>"

text \<open>\<open>updateThreshold\<close> up to its \<open>await fetch(...)\<close>: lines 96-104.\<close>

definition updateThreshold_begin :: "world \<Rightarrow> world" where
  "updateThreshold_begin w =
     w\<lparr>app := (app w)\<lparr>status := Updating\<rparr>,
       posts := posts w @ [tempThreshold (app w)],
       awaiting := awaiting w + 1\<rparr>"

text \<open>\<open>updateThreshold\<close> from the response on: lines 106-121.\<close>

definition updateThreshold_resume :: "real fetch_result \<Rightarrow> world \<Rightarrow> world" where
  "updateThreshold_resume response w =
     (case response of
        Resolved_ok config_threshold \<Rightarrow>
          w\<lparr>app := (app w)\<lparr>threshold := config_threshold, status := Success\<rparr>,
            timers := timers w @ [now w + 3000]\<rparr>
      | Resolved_not_ok \<Rightarrow>
          w\<lparr>app := (app w)\<lparr>status := Error\<rparr>,
            timers := timers w @ [now w + 3000]\<rparr>
      | Rejected \<Rightarrow>
          w\<lparr>app := (app w)\<lparr>status := Error\<rparr>,
            timers := timers w @ [now w + 3000]\<rparr>)"

text \<open>
  \<open>d\<close> milliseconds pass with no other event: every timer that is due by then runs
  its callback \<open>() => setStatus('idle')\<close> and is gone.
\<close>

definition advance :: "nat \<Rightarrow> world \<Rightarrow> world" where
  "advance d w =
     (let t = now w + d
      in w\<lparr>app := fold (\<lambda>_ s. s\<lparr>status := Idle\<rparr>) (filter (\<lambda>due. due \<le> t) (timers w)) (app w),
           now := t,
           timers := filter (\<lambda>due. t < due) (timers w)\<rparr>)"

text \<open>
  The Apply button, lines 234-236: \<open>onClick={updateThreshold}\<close> with
  \<open>disabled={status === 'updating'}\<close>; a disabled button delivers no click.
\<close>

definition Apply_onClick :: "world \<Rightarrow> world" where
  "Apply_onClick w = (if status (app w) = Updating then w else updateThreshold_begin w)"

text \<open>The events of a session and the component's reaction to each.\<close>

datatype event =
    Click_apply
  | Write_response "real fetch_result"
  | Advance nat
  | Change_slider real
  | Data_update reading
  | Config_update real
  | FetchData_response "reading list fetch_result"
  | FetchConfig_response "real fetch_result"

fun step :: "world \<Rightarrow> event \<Rightarrow> world" where
  "step w Click_apply = Apply_onClick w"
| "step w (Write_response r) =
     (if awaiting w = 0 then w
      else updateThreshold_resume r (w\<lparr>awaiting := awaiting w - 1\<rparr>))"
| "step w (Advance d) = advance d w"
| "step w (Change_slider v) = w\<lparr>app := Slider_onChange v (app w)\<rparr>"
| "step w (Data_update newData) = w\<lparr>app := on_data_update newData (app w)\<rparr>"
| "step w (Config_update t) = w\<lparr>app := on_config_update t (app w)\<rparr>"
| "step w (FetchData_response r) = w\<lparr>app := fetchData r (app w)\<rparr>"
| "step w (FetchConfig_response r) = w\<lparr>app := fetchConfig r (app w)\<rparr>"

definition run :: "event list \<Rightarrow> world \<Rightarrow> world" where
  "run es w = foldl step w es"

section \<open>Properties of sample sequences\<close>

text \<open>The chart's points are in chronological order: their time values do not decrease.\<close>

definition chronological :: "sample list \<Rightarrow> bool" where
  "chronological samples = sorted (map (\<lambda>p. getTime (timestamp p)) samples)"

text \<open>The server's list is newest-first: read backwards, its timestamps do not decrease.\<close>

definition newest_first :: "reading list \<Rightarrow> bool" where
  "newest_first jsonData = sorted (rev (map timestamp jsonData))"

section \<open>Auxiliary facts\<close>

lemma chartData_eq: "chartData jsonData = rev (map newDataPoint jsonData)"
  by (simp add: chartData_def newDataPoint_def)

lemma times_chartData:
  "map (\<lambda>p. getTime (timestamp p)) (chartData jsonData) = rev (map timestamp jsonData)"
  by (simp add: chartData_def rev_map comp_def)

lemma data_fetchData_ok: "data (fetchData (Resolved_ok jsonData) s) = chartData jsonData"
  by (simp add: fetchData_def Let_def)

lemma chartData_last:
  "jsonData \<noteq> [] \<Longrightarrow>
     chartData jsonData ! (length (chartData jsonData) - 1) = newDataPoint (hd jsonData)"
  by (cases jsonData) (simp_all add: chartData_def newDataPoint_def nth_append)

lemma newest_first_hd:
  "newest_first jsonData \<Longrightarrow> item \<in> set jsonData \<Longrightarrow> timestamp item \<le> timestamp (hd jsonData)"
  by (cases jsonData) (auto simp: newest_first_def sorted_append)

lemma fetchData_empty:
  "currentTemp (fetchData (Resolved_ok []) s) = currentTemp s
   \<and> currentFanSpeed (fetchData (Resolved_ok []) s) = currentFanSpeed s
   \<and> lastUpdate (fetchData (Resolved_ok []) s) = lastUpdate s"
  by (simp add: fetchData_def chartData_def)

lemma take_append_take: "take n (xs @ take n ys) = take n (xs @ ys)"
  by (simp add: min_def)

lemma data_on_data_updates:
  "length (data s) \<le> 50 \<Longrightarrow>
     data (on_data_updates events s) = take 50 (rev (map newDataPoint events) @ data s)"
proof (induction events arbitrary: s)
  case Nil
  then show ?case by simp
next
  case (Cons e es)
  have "length (data (on_data_update e s)) \<le> 50"
    by (simp add: on_data_update_def updatedData_def)
  then have "data (on_data_updates (e # es) s)
      = take 50 (rev (map newDataPoint es) @ take 50 (newDataPoint e # data s))"
    using Cons.IH [of "on_data_update e s"] by (simp add: on_data_update_def updatedData_def)
  also have "\<dots> = take 50 (rev (map newDataPoint es) @ newDataPoint e # data s)"
    by (rule take_append_take)
  finally show ?case by simp
qed

lemma on_data_updates_current:
  "events \<noteq> [] \<Longrightarrow>
     currentTemp (on_data_updates events s) = temperature (last events) \<and>
     currentFanSpeed (on_data_updates events s) = fanSpeed (last events) \<and>
     lastUpdate (on_data_updates events s) = Some (Date (timestamp (last events)))"
proof (induction events arbitrary: s)
  case Nil
  then show ?case by simp
next
  case (Cons e es)
  show ?case
  proof (cases es)
    case Nil
    then show ?thesis by (simp add: on_data_update_def)
  next
    case (Cons e' es')
    then show ?thesis using Cons.IH [of "on_data_update e s"] by simp
  qed
qed

lemma range_value_bounds: "20 \<le> range_value v \<and> range_value v \<le> 40"
proof -
  have "round (20::real) \<le> round (max 20 (min 40 v))"
    by (rule round_mono) simp
  moreover have "round (max 20 (min 40 v)) \<le> round (40::real)"
    by (rule round_mono) simp
  ultimately have "20 \<le> round (max 20 (min 40 v)) \<and> round (max 20 (min 40 v)) \<le> 40"
    by simp
  then show ?thesis
    unfolding range_value_def by linarith
qed

lemma range_value_of_int: "range_value (of_int k) = of_int (max 20 (min 40 k))"
proof -
  have "max 20 (min 40 (of_int k :: real)) = of_int (max 20 (min 40 k))"
    by (simp add: max_def min_def)
  then show ?thesis
    unfolding range_value_def by (simp only: round_of_int)
qed

lemma range_value_above: "40 \<le> v \<Longrightarrow> range_value v = 40"
  by (simp add: range_value_def min_def max_def)

lemma range_value_below: "v \<le> 20 \<Longrightarrow> range_value v = 20"
  by (simp add: range_value_def min_def max_def)

lemma range_value_near: "20 \<le> v \<Longrightarrow> v \<le> 40 \<Longrightarrow> \<bar>range_value v - v\<bar> \<le> 1 / 2"
  using of_int_round_abs_le [of v] by (simp add: range_value_def min_def max_def)

lemma fold_idle:
  "fold (\<lambda>_ s. s\<lparr>status := Idle\<rparr>) xs s = (if xs = [] then s else s\<lparr>status := Idle\<rparr>)"
  by (induction xs arbitrary: s) simp_all

lemma app_advance:
  "app (advance d w) =
     (if filter (\<lambda>due. due \<le> now w + d) (timers w) = [] then app w
      else (app w)\<lparr>status := Idle\<rparr>)"
  by (simp add: advance_def Let_def fold_idle)

lemma now_advance: "now (advance d w) = now w + d"
  by (simp add: advance_def Let_def)

lemma timers_advance: "timers (advance d w) = filter (\<lambda>due. now w + d < due) (timers w)"
  by (simp add: advance_def Let_def)

lemma threshold_advance: "threshold (app (advance d w)) = threshold (app w)"
  by (simp add: app_advance)

lemma step_keeps_timers:
  "(\<forall>d. e \<noteq> Advance d) \<Longrightarrow> set (timers w) \<subseteq> set (timers (step w e))"
  by (cases e) (auto simp: Apply_onClick_def updateThreshold_begin_def updateThreshold_resume_def
      split: fetch_result.splits)

section \<open>The bulk load\<close>

text \<open>
  C9. \<open>fetchData\<close>, on a successful response, installs the server's list reversed, each
  item turned into a chart point, and takes the current temperature, fan speed and time of
  last update from the first item of the server's list, which is the last point of the
  chart; an empty list leaves the three current values as they were. When the list is
  newest-first, the chart ends up in chronological order and that first item is the newest
  of all. For the list with timestamps 100 and 50 the chart holds the points of 50 and 100
  in this order while the current values are those of timestamp 100.
\<close>

theorem fetchData_reverses:
  "data (fetchData (Resolved_ok jsonData) s) = rev (map newDataPoint jsonData) \<and>
   (newest_first jsonData \<longrightarrow>
      chronological (data (fetchData (Resolved_ok jsonData) s)) \<and>
      (\<forall>item \<in> set jsonData. timestamp item \<le> timestamp (hd jsonData))) \<and>
   (jsonData \<noteq> [] \<longrightarrow>
      currentTemp (fetchData (Resolved_ok jsonData) s) = temperature (hd jsonData) \<and>
      currentFanSpeed (fetchData (Resolved_ok jsonData) s) = fanSpeed (hd jsonData) \<and>
      lastUpdate (fetchData (Resolved_ok jsonData) s) = Some (Date (timestamp (hd jsonData)))) \<and>
   (jsonData = [] \<longrightarrow>
      currentTemp (fetchData (Resolved_ok jsonData) s) = currentTemp s \<and>
      currentFanSpeed (fetchData (Resolved_ok jsonData) s) = currentFanSpeed s \<and>
      lastUpdate (fetchData (Resolved_ok jsonData) s) = lastUpdate s)"
proof -
  have d: "data (fetchData (Resolved_ok jsonData) s) = rev (map newDataPoint jsonData)"
    by (simp add: data_fetchData_ok chartData_eq)
  have c: "chronological (data (fetchData (Resolved_ok jsonData) s))" if nf: "newest_first jsonData"
    using nf by (simp add: data_fetchData_ok chronological_def times_chartData newest_first_def)
  have m: "\<forall>item \<in> set jsonData. timestamp item \<le> timestamp (hd jsonData)"
    if nf: "newest_first jsonData"
    using newest_first_hd [OF nf] by blast
  have l: "currentTemp (fetchData (Resolved_ok jsonData) s) = temperature (hd jsonData) \<and>
      currentFanSpeed (fetchData (Resolved_ok jsonData) s) = fanSpeed (hd jsonData) \<and>
      lastUpdate (fetchData (Resolved_ok jsonData) s) = Some (Date (timestamp (hd jsonData)))"
    if ne: "jsonData \<noteq> []"
  proof -
    have len: "length (chartData jsonData) > 0"
      using ne by (simp add: chartData_def)
    show ?thesis
      using len chartData_last [OF ne] by (simp add: fetchData_def Let_def newDataPoint_def)
  qed
  have e: "currentTemp (fetchData (Resolved_ok jsonData) s) = currentTemp s \<and>
      currentFanSpeed (fetchData (Resolved_ok jsonData) s) = currentFanSpeed s \<and>
      lastUpdate (fetchData (Resolved_ok jsonData) s) = lastUpdate s"
    if em: "jsonData = []"
    unfolding em by (rule fetchData_empty)
  show ?thesis
    using d c m l e by blast
qed

text \<open>The scenario of C9, obtained from the theorem.\<close>

theorem fetchData_reverses_witness:
  "data (fetchData (Resolved_ok
      [\<lparr>timestamp = 100, temperature = 25, fanSpeed = 0\<rparr>,
       \<lparr>timestamp = 50, temperature = 22, fanSpeed = 0\<rparr>]) App_init)
   = [\<lparr>timestamp = Date 50, temperature = 22, fanSpeed = 0\<rparr>,
      \<lparr>timestamp = Date 100, temperature = 25, fanSpeed = 0\<rparr>]
   \<and> chronological (data (fetchData (Resolved_ok
      [\<lparr>timestamp = 100, temperature = 25, fanSpeed = 0\<rparr>,
       \<lparr>timestamp = 50, temperature = 22, fanSpeed = 0\<rparr>]) App_init))
   \<and> currentTemp (fetchData (Resolved_ok
      [\<lparr>timestamp = 100, temperature = 25, fanSpeed = 0\<rparr>,
       \<lparr>timestamp = 50, temperature = 22, fanSpeed = 0\<rparr>]) App_init) = 25
   \<and> currentFanSpeed (fetchData (Resolved_ok
      [\<lparr>timestamp = 100, temperature = 25, fanSpeed = 0\<rparr>,
       \<lparr>timestamp = 50, temperature = 22, fanSpeed = 0\<rparr>]) App_init) = 0
   \<and> lastUpdate (fetchData (Resolved_ok
      [\<lparr>timestamp = 100, temperature = 25, fanSpeed = 0\<rparr>,
       \<lparr>timestamp = 50, temperature = 22, fanSpeed = 0\<rparr>]) App_init) = Some (Date 100)"
proof -
  let ?js = "[\<lparr>timestamp = 100, temperature = 25, fanSpeed = 0\<rparr>,
              \<lparr>timestamp = 50, temperature = 22, fanSpeed = (0::int)\<rparr>] :: reading list"
  have n: "newest_first ?js"
    by (simp add: newest_first_def)
  have ne: "?js \<noteq> []"
    by simp
  have d: "data (fetchData (Resolved_ok ?js) App_init) = rev (map newDataPoint ?js)"
    using fetchData_reverses [of ?js App_init] by blast
  have c: "chronological (data (fetchData (Resolved_ok ?js) App_init))"
    using fetchData_reverses [of ?js App_init] n by blast
  have l: "currentTemp (fetchData (Resolved_ok ?js) App_init) = temperature (hd ?js) \<and>
      currentFanSpeed (fetchData (Resolved_ok ?js) App_init) = fanSpeed (hd ?js) \<and>
      lastUpdate (fetchData (Resolved_ok ?js) App_init) = Some (Date (timestamp (hd ?js)))"
    using fetchData_reverses [of ?js App_init] ne by blast
  have d': "rev (map newDataPoint ?js)
      = [\<lparr>timestamp = Date 50, temperature = 22, fanSpeed = 0\<rparr>,
         \<lparr>timestamp = Date 100, temperature = 25, fanSpeed = 0\<rparr>]"
    by (simp add: newDataPoint_def)
  show ?thesis
    using d d' c l by simp
qed

text \<open>
  C1, as the code has it. When the server's list is newest-first and has at most 50
  items, the chart installed by \<open>fetchData\<close> is that list reversed: every item is kept,
  the points are in chronological order and there are at most 50 of them.
\<close>

theorem fetchData_newest_first_chronological:
  assumes "newest_first jsonData" and "length jsonData \<le> 50"
  shows "data (fetchData (Resolved_ok jsonData) s) = rev (map newDataPoint jsonData)
       \<and> chronological (data (fetchData (Resolved_ok jsonData) s))
       \<and> length (data (fetchData (Resolved_ok jsonData) s)) \<le> 50"
proof -
  have "chronological (chartData jsonData)"
    using assms(1) by (simp add: chronological_def times_chartData newest_first_def)
  moreover have "length (chartData jsonData) \<le> 50"
    using assms(2) by (simp add: chartData_def)
  ultimately show ?thesis
    by (simp add: data_fetchData_ok chartData_eq)
qed

text \<open>A newest-first list of two readings, loaded into the initial state.\<close>

theorem fetchData_newest_first_chronological_witness:
  "newest_first [\<lparr>timestamp = 200, temperature = 31, fanSpeed = 40\<rparr>,
                 \<lparr>timestamp = 150, temperature = 29, fanSpeed = 0\<rparr>]
   \<and> data (fetchData (Resolved_ok
        [\<lparr>timestamp = 200, temperature = 31, fanSpeed = 40\<rparr>,
         \<lparr>timestamp = 150, temperature = 29, fanSpeed = 0\<rparr>]) App_init)
     = [\<lparr>timestamp = Date 150, temperature = 29, fanSpeed = 0\<rparr>,
        \<lparr>timestamp = Date 200, temperature = 31, fanSpeed = 40\<rparr>]
   \<and> chronological (data (fetchData (Resolved_ok
        [\<lparr>timestamp = 200, temperature = 31, fanSpeed = 40\<rparr>,
         \<lparr>timestamp = 150, temperature = 29, fanSpeed = 0\<rparr>]) App_init))"
proof -
  let ?js = "[\<lparr>timestamp = 200, temperature = 31, fanSpeed = 40\<rparr>,
              \<lparr>timestamp = 150, temperature = 29, fanSpeed = (0::int)\<rparr>] :: reading list"
  have n: "newest_first ?js"
    by (simp add: newest_first_def)
  have len: "length ?js \<le> 50"
    by simp
  have d: "data (fetchData (Resolved_ok ?js) App_init) = rev (map newDataPoint ?js)"
    using fetchData_newest_first_chronological [OF n len, of App_init] by blast
  have c: "chronological (data (fetchData (Resolved_ok ?js) App_init))"
    using fetchData_newest_first_chronological [OF n len, of App_init] by blast
  have d': "rev (map newDataPoint ?js)
      = [\<lparr>timestamp = Date 150, temperature = 29, fanSpeed = 0\<rparr>,
         \<lparr>timestamp = Date 200, temperature = 31, fanSpeed = 40\<rparr>]"
    by (simp add: newDataPoint_def)
  show ?thesis
    using n d d' c by simp
qed

text \<open>
  C1 as it is stated fails: \<open>fetchData\<close> does not sort, so a list that arrives
  oldest-first is installed newest-first; and it does not truncate, so a list of 51 items
  gives a chart of 51 points.
\<close>

theorem fetchData_not_sorted_counterexample:
  "\<not> chronological (data (fetchData (Resolved_ok
        [\<lparr>timestamp = 50, temperature = 22, fanSpeed = 0\<rparr>,
         \<lparr>timestamp = 100, temperature = 25, fanSpeed = 0\<rparr>]) App_init))
   \<and> \<not> length (data (fetchData (Resolved_ok
        (replicate 51 \<lparr>timestamp = 50, temperature = 22, fanSpeed = 0\<rparr>)) App_init)) \<le> 50"
  by (simp add: data_fetchData_ok chronological_def times_chartData)
   (simp add: chartData_def)

text \<open>
  C8. A fetch that fails, by a response that is not ok or by an exception, changes
  nothing: \<open>fetchData\<close> and \<open>fetchConfig\<close> return the state they were given, chart,
  current values, thresholds and status included, and so do the corresponding events on
  the whole session.
\<close>

theorem fetch_failure_leaves_state:
  "fetchData Resolved_not_ok s = s \<and> fetchData Rejected s = s
   \<and> fetchConfig Resolved_not_ok s = s \<and> fetchConfig Rejected s = s
   \<and> step w (FetchData_response Resolved_not_ok) = w
   \<and> step w (FetchData_response Rejected) = w
   \<and> step w (FetchConfig_response Resolved_not_ok) = w
   \<and> step w (FetchConfig_response Rejected) = w"
  by (simp add: fetchData_def fetchConfig_def)

section \<open>The push stream\<close>

text \<open>
  C2. Whatever \<open>data_update\<close> events arrive, in whatever number, on a chart of at most
  50 points: the chart never has more than 50 points, it consists of the events' points,
  latest first, followed by the old chart, cut after 50; and the point of the latest event
  is in the chart, at its front, and is the one the current temperature, fan speed and
  time of last update show.
\<close>

theorem data_update_buffer_bounded:
  assumes "length (data s) \<le> 50"
  shows "length (data (on_data_updates events s)) \<le> 50
       \<and> data (on_data_updates events s) = take 50 (rev (map newDataPoint events) @ data s)
       \<and> (events \<noteq> [] \<longrightarrow>
            take 1 (data (on_data_updates events s)) = [newDataPoint (last events)]
            \<and> newDataPoint (last events) \<in> set (data (on_data_updates events s))
            \<and> currentTemp (on_data_updates events s) = temperature (newDataPoint (last events))
            \<and> currentFanSpeed (on_data_updates events s) = fanSpeed (newDataPoint (last events))
            \<and> lastUpdate (on_data_updates events s)
                 = Some (timestamp (newDataPoint (last events))))"
proof -
  have eq: "data (on_data_updates events s) = take 50 (rev (map newDataPoint events) @ data s)"
    using assms by (rule data_on_data_updates)
  have len: "length (data (on_data_updates events s)) \<le> 50"
    unfolding eq by simp
  have front: "take 1 (data (on_data_updates events s)) = [newDataPoint (last events)]
      \<and> newDataPoint (last events) \<in> set (data (on_data_updates events s))"
    if ne: "events \<noteq> []"
  proof -
    obtain es e where sn: "events = es @ [e]"
      using ne by (cases events rule: rev_cases) auto
    have d: "data (on_data_updates events s)
        = newDataPoint e # take 49 (rev (map newDataPoint es) @ data s)"
      using eq unfolding sn by simp
    have l: "last events = e"
      unfolding sn by simp
    show ?thesis
      unfolding d l by simp
  qed
  have cur: "currentTemp (on_data_updates events s) = temperature (newDataPoint (last events))
      \<and> currentFanSpeed (on_data_updates events s) = fanSpeed (newDataPoint (last events))
      \<and> lastUpdate (on_data_updates events s) = Some (timestamp (newDataPoint (last events)))"
    if ne: "events \<noteq> []"
    using on_data_updates_current [OF ne, of s] by (simp add: newDataPoint_def)
  show ?thesis
    using eq len front cur by blast
qed

text \<open>A full chart of 50 points receives two events: still 50 points, the second event's in front.\<close>

theorem data_update_buffer_bounded_witness:
  "length (data (App_init\<lparr>data := replicate 50 \<lparr>timestamp = Date 10, temperature = 20, fanSpeed = 0\<rparr>\<rparr>)) \<le> 50
   \<and> length (data (on_data_updates
        [\<lparr>timestamp = 20, temperature = 21, fanSpeed = 10\<rparr>,
         \<lparr>timestamp = 30, temperature = 22, fanSpeed = 20\<rparr>]
        (App_init\<lparr>data := replicate 50 \<lparr>timestamp = Date 10, temperature = 20, fanSpeed = 0\<rparr>\<rparr>))) \<le> 50
   \<and> take 1 (data (on_data_updates
        [\<lparr>timestamp = 20, temperature = 21, fanSpeed = 10\<rparr>,
         \<lparr>timestamp = 30, temperature = 22, fanSpeed = 20\<rparr>]
        (App_init\<lparr>data := replicate 50 \<lparr>timestamp = Date 10, temperature = 20, fanSpeed = 0\<rparr>\<rparr>)))
      = [\<lparr>timestamp = Date 30, temperature = 22, fanSpeed = 20\<rparr>]"
proof -
  let ?s = "App_init\<lparr>data := replicate 50 \<lparr>timestamp = Date 10, temperature = 20, fanSpeed = 0\<rparr>\<rparr>"
  let ?es = "[\<lparr>timestamp = 20, temperature = 21, fanSpeed = 10\<rparr>,
              \<lparr>timestamp = 30, temperature = 22, fanSpeed = (20::int)\<rparr>] :: reading list"
  have h: "length (data ?s) \<le> 50"
    by simp
  have ne: "?es \<noteq> []"
    by simp
  have l: "length (data (on_data_updates ?es ?s)) \<le> 50"
    using data_update_buffer_bounded [OF h, of ?es] by blast
  have f: "take 1 (data (on_data_updates ?es ?s)) = [newDataPoint (last ?es)]"
    using data_update_buffer_bounded [OF h, of ?es] ne by blast
  have n: "newDataPoint (last ?es) = \<lparr>timestamp = Date 30, temperature = 22, fanSpeed = 20\<rparr>"
    by (simp add: newDataPoint_def)
  show ?thesis
    using h l f n by simp
qed

text \<open>
  C10. A \<open>data_update\<close> event overwrites the current temperature, the current fan speed
  and the time of last update with its own payload, whatever the state held before and
  whatever the event's timestamp is; after any stream of such events the three cells hold
  the payload of the event that came last.
\<close>

theorem data_update_overwrites_current:
  "currentTemp (on_data_update newData s) = temperature newData
   \<and> currentFanSpeed (on_data_update newData s) = fanSpeed newData
   \<and> lastUpdate (on_data_update newData s) = Some (Date (timestamp newData))
   \<and> (events \<noteq> [] \<longrightarrow>
        currentTemp (on_data_updates events s) = temperature (last events)
        \<and> currentFanSpeed (on_data_updates events s) = fanSpeed (last events)
        \<and> lastUpdate (on_data_updates events s) = Some (Date (timestamp (last events))))"
proof -
  have one: "currentTemp (on_data_update newData s) = temperature newData
      \<and> currentFanSpeed (on_data_update newData s) = fanSpeed newData
      \<and> lastUpdate (on_data_update newData s) = Some (Date (timestamp newData))"
    by (simp add: on_data_update_def)
  show ?thesis
    using one on_data_updates_current [of events s] by blast
qed

text \<open>An event stamped 50 arrives after one stamped 100: the time of last update goes back to 50.\<close>

theorem data_update_overwrites_current_witness:
  "lastUpdate (on_data_updates [\<lparr>timestamp = 100, temperature = 25, fanSpeed = 0\<rparr>] App_init)
     = Some (Date 100)
   \<and> lastUpdate (on_data_updates
        [\<lparr>timestamp = 100, temperature = 25, fanSpeed = 0\<rparr>,
         \<lparr>timestamp = 50, temperature = 22, fanSpeed = 5\<rparr>] App_init) = Some (Date 50)
   \<and> currentTemp (on_data_updates
        [\<lparr>timestamp = 100, temperature = 25, fanSpeed = 0\<rparr>,
         \<lparr>timestamp = 50, temperature = 22, fanSpeed = 5\<rparr>] App_init) = 22
   \<and> currentFanSpeed (on_data_updates
        [\<lparr>timestamp = 100, temperature = 25, fanSpeed = 0\<rparr>,
         \<lparr>timestamp = 50, temperature = 22, fanSpeed = 5\<rparr>] App_init) = 5"
proof -
  let ?e1 = "\<lparr>timestamp = 100, temperature = 25, fanSpeed = (0::int)\<rparr> :: reading"
  let ?e2 = "\<lparr>timestamp = 50, temperature = 22, fanSpeed = (5::int)\<rparr> :: reading"
  have a: "lastUpdate (on_data_updates [?e1] App_init) = Some (Date (timestamp (last [?e1])))"
    using data_update_overwrites_current [of ?e1 App_init "[?e1]"] by blast
  have ne: "[?e1, ?e2] \<noteq> []"
    by simp
  have b: "currentTemp (on_data_updates [?e1, ?e2] App_init) = temperature (last [?e1, ?e2])
      \<and> currentFanSpeed (on_data_updates [?e1, ?e2] App_init) = fanSpeed (last [?e1, ?e2])
      \<and> lastUpdate (on_data_updates [?e1, ?e2] App_init)
          = Some (Date (timestamp (last [?e1, ?e2])))"
    using data_update_overwrites_current [of ?e1 App_init "[?e1, ?e2]"] ne by blast
  show ?thesis
    using a b by simp
qed

section \<open>The threshold controls\<close>

text \<open>
  C3. A change of the slider leaves the pending threshold between 20 and 40, whatever
  value is offered and whatever the status is: a value of 40 or more gives 40, so 45 gives
  40, a value of 20 or less gives 20, a whole number gives itself cut to the range, and a
  value within the range gives the slider position nearest to it. The change touches
  neither the status nor the applied threshold, sends nothing and leaves the requests in
  flight and the timers as they are.
\<close>

theorem Slider_onChange_clamps:
  "20 \<le> tempThreshold (Slider_onChange v s) \<and> tempThreshold (Slider_onChange v s) \<le> 40
   \<and> (40 \<le> v \<longrightarrow> tempThreshold (Slider_onChange v s) = 40)
   \<and> (v \<le> 20 \<longrightarrow> tempThreshold (Slider_onChange v s) = 20)
   \<and> tempThreshold (Slider_onChange (of_int k) s) = of_int (max 20 (min 40 k))
   \<and> (20 \<le> v \<and> v \<le> 40 \<longrightarrow> \<bar>tempThreshold (Slider_onChange v s) - v\<bar> \<le> 1 / 2)
   \<and> tempThreshold (Slider_onChange 45 s) = 40
   \<and> status (Slider_onChange v s) = status s
   \<and> threshold (Slider_onChange v s) = threshold s
   \<and> status (app (step w (Change_slider v))) = status (app w)
   \<and> posts (step w (Change_slider v)) = posts w
   \<and> awaiting (step w (Change_slider v)) = awaiting w
   \<and> timers (step w (Change_slider v)) = timers w"
proof -
  have t: "tempThreshold (Slider_onChange x s) = range_value x" for x
    by (simp add: Slider_onChange_def onChange_def)
  have r: "20 \<le> range_value v \<and> range_value v \<le> 40"
    by (rule range_value_bounds)
  have hi: "40 \<le> v \<longrightarrow> range_value v = 40"
    by (simp add: range_value_above)
  have lo: "v \<le> 20 \<longrightarrow> range_value v = 20"
    by (simp add: range_value_below)
  have near: "20 \<le> v \<and> v \<le> 40 \<longrightarrow> \<bar>range_value v - v\<bar> \<le> 1 / 2"
    using range_value_near [of v] by blast
  have k: "range_value (of_int k) = of_int (max 20 (min 40 k))"
    by (rule range_value_of_int)
  have f: "range_value 45 = 40"
    by (simp add: range_value_above)
  have rest: "status (Slider_onChange v s) = status s
      \<and> threshold (Slider_onChange v s) = threshold s
      \<and> status (app (step w (Change_slider v))) = status (app w)
      \<and> posts (step w (Change_slider v)) = posts w
      \<and> awaiting (step w (Change_slider v)) = awaiting w
      \<and> timers (step w (Change_slider v)) = timers w"
    by (simp add: Slider_onChange_def onChange_def)
  show ?thesis
    unfolding t using r hi lo near k f rest by blast
qed

text \<open>
  The slider is offered 45 while an update is in flight, then 12, then 35: the pending
  threshold is 40, then 20, then 35, and the status stays \<open>updating\<close>.
\<close>

theorem Slider_onChange_clamps_witness:
  "(40::real) \<le> 45
   \<and> tempThreshold (Slider_onChange 45 (App_init\<lparr>status := Updating\<rparr>)) = 40
   \<and> status (Slider_onChange 45 (App_init\<lparr>status := Updating\<rparr>)) = Updating
   \<and> (12::real) \<le> 20
   \<and> tempThreshold (Slider_onChange 12 (App_init\<lparr>status := Updating\<rparr>)) = 20
   \<and> (20::real) \<le> 35 \<and> (35::real) \<le> 40
   \<and> tempThreshold (Slider_onChange 35 (App_init\<lparr>status := Updating\<rparr>)) = 35"
proof -
  let ?s = "App_init\<lparr>status := Updating\<rparr>"
  have a: "tempThreshold (Slider_onChange 45 ?s) = 40"
    using Slider_onChange_clamps [of 45 ?s 0 World_init] by simp
  have b: "status (Slider_onChange 45 ?s) = Updating"
    using Slider_onChange_clamps [of 45 ?s 0 World_init] by simp
  have c: "tempThreshold (Slider_onChange 12 ?s) = 20"
    using Slider_onChange_clamps [of 12 ?s 0 World_init] by simp
  have d: "tempThreshold (Slider_onChange 35 ?s) = 35"
    using Slider_onChange_clamps [of 35 ?s 35 World_init] by simp
  show ?thesis
    using a b c d by simp
qed

text \<open>
  C4, on the code. The user sets the slider to 32 and applies; the server answers with the
  confirmed threshold 30. The applied threshold becomes 30 and the status \<open>success\<close>,
  but the pending threshold stays 32: \<open>updateThreshold\<close> calls \<open>setThreshold\<close> only.
\<close>

theorem updateThreshold_success_keeps_tempThreshold:
  "threshold (app (run [Change_slider 32, Click_apply, Write_response (Resolved_ok 30)] World_init)) = 30
   \<and> tempThreshold (app (run [Change_slider 32, Click_apply, Write_response (Resolved_ok 30)] World_init)) = 32
   \<and> status (app (run [Change_slider 32, Click_apply, Write_response (Resolved_ok 30)] World_init)) = Success"
  by (simp add: run_def World_init_def App_init_def Apply_onClick_def updateThreshold_begin_def
      updateThreshold_resume_def Slider_onChange_def onChange_def range_value_def)

text \<open>
  C5. \<open>updateThreshold\<close> is called from one place only, the \<open>onClick\<close> of the Apply
  button, which is disabled while the status is \<open>updating\<close>. After any run of events,
  a click on the button in that status changes nothing at all: no request is sent, the state
  stays as it is, the status is not entered anew. In any other status the click sends
  exactly one request, carrying the pending threshold, and the status becomes
  \<open>updating\<close>.
\<close>

theorem Apply_onClick_disabled_while_updating:
  "(status (app (run es w)) = Updating \<longrightarrow> run (es @ [Click_apply]) w = run es w)
   \<and> (status (app (run es w)) \<noteq> Updating \<longrightarrow>
        posts (run (es @ [Click_apply]) w) = posts (run es w) @ [tempThreshold (app (run es w))]
        \<and> awaiting (run (es @ [Click_apply]) w) = awaiting (run es w) + 1
        \<and> status (app (run (es @ [Click_apply]) w)) = Updating)"
  by (simp add: run_def Apply_onClick_def updateThreshold_begin_def)

text \<open>A first click sends the request; a second click right after it sends none.\<close>

theorem Apply_onClick_disabled_while_updating_witness:
  "status (app (run [] World_init)) \<noteq> Updating
   \<and> posts (run ([] @ [Click_apply]) World_init) = [30]
   \<and> status (app (run [Click_apply] World_init)) = Updating
   \<and> run ([Click_apply] @ [Click_apply]) World_init = run [Click_apply] World_init
   \<and> posts (run ([Click_apply] @ [Click_apply]) World_init) = [30]"
proof -
  have s: "status (app (run [Click_apply] World_init)) = Updating"
    by (simp add: run_def World_init_def App_init_def Apply_onClick_def updateThreshold_begin_def)
  have p: "posts (run [Click_apply] World_init) = [30]"
    by (simp add: run_def World_init_def App_init_def Apply_onClick_def updateThreshold_begin_def)
  have s0: "status (app (run [] World_init)) \<noteq> Updating"
    by (simp add: run_def World_init_def App_init_def)
  have e: "run ([Click_apply] @ [Click_apply]) World_init = run [Click_apply] World_init"
    using Apply_onClick_disabled_while_updating [of "[Click_apply]" World_init] s by blast
  have p0: "posts (run ([] @ [Click_apply]) World_init) = [30]"
    using Apply_onClick_disabled_while_updating [of "[]" World_init] s0
    by (simp add: run_def World_init_def App_init_def)
  show ?thesis
    using s s0 e p p0 by simp
qed

text \<open>
  C6, as the code has it. Every response to an update schedules one timer, due 3000 ms
  later. Nothing cancels a timer: \<open>updateThreshold\<close> leaves the pending timers as they
  are, and no event other than the passing of time removes one. A timer that comes due
  sets the status to \<open>idle\<close>, whatever the status is at that moment.
\<close>

theorem timers_never_cancelled:
  "timers (updateThreshold_begin w) = timers w
   \<and> timers (updateThreshold_resume r w) = timers w @ [now w + 3000]
   \<and> ((\<forall>d. e \<noteq> Advance d) \<longrightarrow> set (timers w) \<subseteq> set (timers (step w e)))
   \<and> (due \<in> set (timers w) \<and> due \<le> now w + d \<longrightarrow> status (app (advance d w)) = Idle)"
proof -
  have a: "timers (updateThreshold_begin w) = timers w"
    by (simp add: updateThreshold_begin_def)
  have b: "timers (updateThreshold_resume r w) = timers w @ [now w + 3000]"
    by (cases r) (simp_all add: updateThreshold_resume_def)
  have c: "due \<in> set (timers w) \<and> due \<le> now w + d \<longrightarrow> status (app (advance d w)) = Idle"
    by (auto simp: app_advance filter_empty_conv)
  show ?thesis
    using a b c step_keeps_timers [of e w] by blast
qed

text \<open>
  An update succeeds at time 0; one second later the user applies again; the timer of the
  first update is still there and, two seconds later, sets the status to \<open>idle\<close>.
\<close>

theorem timers_never_cancelled_witness:
  "status (app (run [Click_apply, Write_response (Resolved_ok 30), Advance 1000, Click_apply] World_init)) = Updating
   \<and> timers (run [Click_apply, Write_response (Resolved_ok 30), Advance 1000, Click_apply] World_init) = [3000]
   \<and> status (app (advance 2000
        (run [Click_apply, Write_response (Resolved_ok 30), Advance 1000, Click_apply] World_init))) = Idle"
proof -
  let ?w = "run [Click_apply, Write_response (Resolved_ok 30), Advance 1000] World_init"
  have w: "?w = \<lparr>app = App_init\<lparr>status := Success\<rparr>, now = 1000, timers = [3000],
      posts = [30], awaiting = 0\<rparr>"
    by (simp add: run_def World_init_def App_init_def Apply_onClick_def updateThreshold_begin_def
      updateThreshold_resume_def advance_def Let_def)
  have r: "run [Click_apply, Write_response (Resolved_ok 30), Advance 1000, Click_apply] World_init
      = step ?w Click_apply"
    by (simp add: run_def)
  have st: "status (app (step ?w Click_apply)) = Updating"
    by (simp add: w Apply_onClick_def updateThreshold_begin_def App_init_def)
  have nw: "now (step ?w Click_apply) = 1000"
    by (simp add: w Apply_onClick_def updateThreshold_begin_def App_init_def)
  have tm: "timers (step ?w Click_apply) = [3000]"
    by (simp add: w Apply_onClick_def updateThreshold_begin_def App_init_def)
  have "status (app (advance 2000 (step ?w Click_apply))) = Idle"
    using timers_never_cancelled [of "step ?w Click_apply" Rejected Click_apply 3000 2000] tm nw
    by simp
  then show ?thesis
    using st tm r by simp
qed

text \<open>
  C6 as it is stated fails: the second click comes one second after the first update
  succeeded; the status is \<open>updating\<close> and the second request has no response yet when,
  two seconds later, the first update's timer sets the status to \<open>idle\<close>.
\<close>

theorem stale_timer_counterexample:
  "status (app (run [Click_apply, Write_response (Resolved_ok 30), Advance 1000, Click_apply] World_init)) = Updating
   \<and> awaiting (run [Click_apply, Write_response (Resolved_ok 30), Advance 1000, Click_apply, Advance 2000] World_init) = 1
   \<and> status (app (run [Click_apply, Write_response (Resolved_ok 30), Advance 1000, Click_apply, Advance 2000] World_init)) = Idle"
  by (simp add: run_def World_init_def App_init_def Apply_onClick_def updateThreshold_begin_def
      updateThreshold_resume_def advance_def Let_def)

text \<open>
  C7, as the code has it. From the status \<open>idle\<close>, a click on Apply whose request
  fails, by a response that is not ok or by an exception, however long the response takes:
  the status is \<open>updating\<close> after the click, \<open>error\<close> when the failure arrives, and
  \<open>idle\<close> from 3000 ms after the failure on; the applied threshold is the same at every
  point of the episode. When no timer of an earlier update is pending at the click, the
  status also stays \<open>updating\<close> while the request is in flight and stays \<open>error\<close> for
  every delay shorter than 3000 ms, so that the status goes from \<open>idle\<close> to
  \<open>updating\<close> to \<open>error\<close> and, 3000 ms later and not before, back to \<open>idle\<close>.
\<close>

theorem updateThreshold_failure_episode:
  assumes "status (app w) = Idle" and "r = Resolved_not_ok \<or> r = Rejected"
  shows "status (app (run [Click_apply] w)) = Updating
    \<and> status (app (run [Click_apply, Advance d1, Write_response r] w)) = Error
    \<and> (3000 \<le> d \<longrightarrow>
         status (app (run [Click_apply, Advance d1, Write_response r, Advance d] w)) = Idle)
    \<and> (timers w = [] \<longrightarrow>
         status (app (run [Click_apply, Advance d1] w)) = Updating
         \<and> (d < 3000 \<longrightarrow>
              status (app (run [Click_apply, Advance d1, Write_response r, Advance d] w)) = Error))
    \<and> threshold (app (run [Click_apply] w)) = threshold (app w)
    \<and> threshold (app (run [Click_apply, Advance d1] w)) = threshold (app w)
    \<and> threshold (app (run [Click_apply, Advance d1, Write_response r] w)) = threshold (app w)
    \<and> threshold (app (run [Click_apply, Advance d1, Write_response r, Advance d] w))
        = threshold (app w)"
proof -
  let ?w1 = "updateThreshold_begin w"
  have c: "run [Click_apply] w = ?w1"
    using assms(1) by (simp add: run_def Apply_onClick_def)
  have aw: "awaiting (advance d1 ?w1) \<noteq> 0"
    by (simp add: advance_def Let_def updateThreshold_begin_def)
  let ?w2 = "updateThreshold_resume r
      ((advance d1 ?w1)\<lparr>awaiting := awaiting (advance d1 ?w1) - 1\<rparr>)"
  have r1: "run [Click_apply, Advance d1] w = advance d1 ?w1"
    using assms(1) by (simp add: run_def Apply_onClick_def)
  have r2: "run [Click_apply, Advance d1, Write_response r] w = ?w2"
    using assms(1) aw by (simp add: run_def Apply_onClick_def)
  have r3: "run [Click_apply, Advance d1, Write_response r, Advance k] w = advance k ?w2" for k
    using assms(1) aw by (simp add: run_def Apply_onClick_def)
  have s1: "status (app ?w1) = Updating"
    by (simp add: updateThreshold_begin_def)
  have s2: "status (app ?w2) = Error"
    using assms(2) by (auto simp: updateThreshold_resume_def)
  have t2: "timers ?w2 = timers (advance d1 ?w1) @ [now ?w2 + 3000]"
    using assms(2) by (auto simp: updateThreshold_resume_def)
  have s3: "status (app (advance d ?w2)) = Idle" if late: "3000 \<le> d"
    using late by (subst app_advance, subst t2) simp
  have th1: "threshold (app ?w1) = threshold (app w)"
    by (simp add: updateThreshold_begin_def)
  have th2: "threshold (app ?w2) = threshold (app w)"
    using assms(2) by (auto simp: updateThreshold_resume_def threshold_advance th1)
  have quiet: "status (app (advance d1 ?w1)) = Updating
      \<and> (d < 3000 \<longrightarrow> status (app (advance d ?w2)) = Error)" if none: "timers w = []"
  proof -
    have e1: "timers ?w1 = []"
      using none by (simp add: updateThreshold_begin_def)
    have e2: "timers (advance d1 ?w1) = []"
      using e1 by (simp add: timers_advance)
    have "status (app (advance d1 ?w1)) = Updating"
      using e1 s1 by (simp add: app_advance)
    moreover have "status (app (advance d ?w2)) = Error" if short: "d < 3000"
      using short s2 by (subst app_advance, subst t2) (simp add: e2)
    ultimately show ?thesis by simp
  qed
  show ?thesis
    using c r1 r2 r3 s1 s2 s3 th1 th2 quiet by (simp add: threshold_advance)
qed

text \<open>
  The first update of a session: the request is rejected after 120 ms; the status is still
  \<open>error\<close> 2999 ms later and \<open>idle\<close> at 3000 ms, the applied threshold still 30.
\<close>

theorem updateThreshold_failure_episode_witness:
  "status (app World_init) = Idle
   \<and> timers World_init = []
   \<and> status (app (run [Click_apply] World_init)) = Updating
   \<and> status (app (run [Click_apply, Advance 120] World_init)) = Updating
   \<and> status (app (run [Click_apply, Advance 120, Write_response Rejected] World_init)) = Error
   \<and> status (app (run [Click_apply, Advance 120, Write_response Rejected, Advance 2999] World_init)) = Error
   \<and> status (app (run [Click_apply, Advance 120, Write_response Rejected, Advance 3000] World_init)) = Idle
   \<and> threshold (app (run [Click_apply, Advance 120, Write_response Rejected, Advance 3000] World_init)) = 30"
proof -
  have i: "status (app World_init) = Idle"
    by (simp add: World_init_def App_init_def)
  have t: "timers World_init = []"
    by (simp add: World_init_def)
  have th: "threshold (app World_init) = 30"
    by (simp add: World_init_def App_init_def)
  have f: "Rejected = Resolved_not_ok \<or> (Rejected :: real fetch_result) = Rejected"
    by simp
  have early: "status (app (run [Click_apply] World_init)) = Updating
      \<and> status (app (run [Click_apply, Advance 120] World_init)) = Updating
      \<and> status (app (run [Click_apply, Advance 120, Write_response Rejected] World_init)) = Error
      \<and> status (app (run [Click_apply, Advance 120, Write_response Rejected, Advance 2999]
            World_init)) = Error"
    using updateThreshold_failure_episode [OF i f, of 120 2999] t by simp
  have late: "status (app (run [Click_apply, Advance 120, Write_response Rejected, Advance 3000]
            World_init)) = Idle
      \<and> threshold (app (run [Click_apply, Advance 120, Write_response Rejected, Advance 3000]
            World_init)) = 30"
    using updateThreshold_failure_episode [OF i f, of 120 3000] th by simp
  show ?thesis
    using i t early late by simp
qed

text \<open>
  C7 as it is stated fails when a timer of an earlier update is pending at the click. Two
  updates fail, at 0 ms and at 1000 ms; at 3000 ms the first timer makes the status
  \<open>idle\<close> and the second, due at 4000 ms, is pending. A click now gives \<open>updating\<close>;
  if the response takes 1000 ms, the status is \<open>idle\<close> again while the request is in
  flight; if the request fails at once, the status is \<open>idle\<close> 1000 ms after the
  \<open>error\<close>, not 3000 ms.
\<close>

theorem pending_timer_episode_counterexample:
  "status (app (run [Click_apply, Write_response Rejected, Advance 1000,
        Click_apply, Write_response Rejected, Advance 2000] World_init)) = Idle
   \<and> status (app (run [Click_apply, Write_response Rejected, Advance 1000,
        Click_apply, Write_response Rejected, Advance 2000,
        Click_apply] World_init)) = Updating
   \<and> awaiting (run [Click_apply, Write_response Rejected, Advance 1000,
        Click_apply, Write_response Rejected, Advance 2000,
        Click_apply, Advance 1000] World_init) = 1
   \<and> status (app (run [Click_apply, Write_response Rejected, Advance 1000,
        Click_apply, Write_response Rejected, Advance 2000,
        Click_apply, Advance 1000] World_init)) = Idle
   \<and> status (app (run [Click_apply, Write_response Rejected, Advance 1000,
        Click_apply, Write_response Rejected, Advance 2000,
        Click_apply, Write_response Rejected] World_init)) = Error
   \<and> status (app (run [Click_apply, Write_response Rejected, Advance 1000,
        Click_apply, Write_response Rejected, Advance 2000,
        Click_apply, Write_response Rejected, Advance 1000] World_init)) = Idle"
  by (simp add: run_def World_init_def App_init_def Apply_onClick_def updateThreshold_begin_def
      updateThreshold_resume_def advance_def Let_def)

end
